theory Spec2Isabelle
  imports Main
begin

section \<open>Process configuration: mysite/settings.py\<close>

text \<open>
  The settings module is evaluated once, at import time, in the process environment.
  \<open>os.environ\<close> is a dictionary from variable names to strings; the module is modelled as a
  function of that dictionary. Settings that do not mention \<open>os\<close> are constants.
\<close>

type_synonym environ = "string \<rightharpoonup> string"

text \<open>
  \<open>os.getenv(key, default)\<close> is \<open>os.environ.get(key, default)\<close>: the value stored under
  the key, else the default. It raises nothing.
\<close>

definition getenv :: "environ \<Rightarrow> string \<Rightarrow> string \<Rightarrow> string" where
  "getenv env key dflt = (case env key of None \<Rightarrow> dflt | Some v \<Rightarrow> v)"

text \<open>
  The values the module binds: strings, integers, booleans, lists and dictionaries.
  A dictionary literal keeps its keys in the order written, so it is an association list.
\<close>

datatype py =
    PyStr string
  | PyInt int
  | PyBool bool
  | PyList "py list"
  | PyDict "(string \<times> py) list"

text \<open>
  Reading a nested dictionary along a path of keys, \<open>d[k1][k2]...\<close>; \<open>None\<close> stands for
  the \<open>KeyError\<close> (or \<open>TypeError\<close>, on a value that is no dictionary) Python would raise.
\<close>

fun subscript :: "py \<Rightarrow> string list \<Rightarrow> py option" where
  "subscript v [] = Some v"
| "subscript (PyDict kvs) (k # ks) =
     (case map_of kvs k of None \<Rightarrow> None | Some v \<Rightarrow> subscript v ks)"
| "subscript v (k # ks) = None"

definition DEBUG :: py where
  "DEBUG = PyBool True"

definition ALLOWED_HOSTS :: py where
  "ALLOWED_HOSTS = PyList [PyStr ''*'']"

definition INSTALLED_APPS :: py where
  "INSTALLED_APPS = PyList
     [PyStr ''django.contrib.contenttypes'',
      PyStr ''django.contrib.auth'',
      PyStr ''blog'',
      PyStr ''shop'']"

definition DATABASES :: "environ \<Rightarrow> py" where
  "DATABASES env = PyDict
     [(''default'', PyDict
        [(''ENGINE'', PyStr ''django.db.backends.postgresql''),
         (''NAME'', PyStr (getenv env ''POSTGRES_DB'' ''demodb'')),
         (''USER'', PyStr (getenv env ''POSTGRES_USER'' ''demo_user'')),
         (''PASSWORD'', PyStr (getenv env ''POSTGRES_PASSWORD'' ''demo_password'')),
         (''HOST'', PyStr (getenv env ''POSTGRES_HOST'' ''localhost'')),
         (''PORT'', PyStr (getenv env ''POSTGRES_PORT'' ''5432'')),
         (''CONN_MAX_AGE'', PyInt 60),
         (''OPTIONS'', PyDict
            [(''connect_timeout'', PyInt 10)])])]"

text \<open>
  The two replacement fields of the f-string of \<open>LOCATION\<close>: the cache host and the cache
  port. An f-string formats a \<open>str\<close> as itself, so the location is a concatenation.
\<close>

definition REDIS_HOST :: "environ \<Rightarrow> string" where
  "REDIS_HOST env = getenv env ''REDIS_HOST'' ''localhost''"

definition REDIS_PORT :: "environ \<Rightarrow> string" where
  "REDIS_PORT env = getenv env ''REDIS_PORT'' ''6379''"

definition CACHES :: "environ \<Rightarrow> py" where
  "CACHES env = PyDict
     [(''default'', PyDict
        [(''BACKEND'', PyStr ''django_redis.cache.RedisCache''),
         (''LOCATION'', PyStr (''redis://'' @ REDIS_HOST env @ '':'' @ REDIS_PORT env @ ''/1'')),
         (''OPTIONS'', PyDict
            [(''CLIENT_CLASS'', PyStr ''django_redis.client.DefaultClient''),
             (''SOCKET_CONNECT_TIMEOUT'', PyInt 5),
             (''SOCKET_TIMEOUT'', PyInt 5)])])]"

definition SECRET_KEY :: py where
  "SECRET_KEY = PyStr ''demo-secret-key-not-for-production''"

definition DEFAULT_AUTO_FIELD :: py where
  "DEFAULT_AUTO_FIELD = PyStr ''django.db.models.BigAutoField''"

text \<open>The module's namespace after import: every name it binds, in the order bound.\<close>

definition settings :: "environ \<Rightarrow> py" where
  "settings env = PyDict
     [(''DEBUG'', DEBUG),
      (''ALLOWED_HOSTS'', ALLOWED_HOSTS),
      (''INSTALLED_APPS'', INSTALLED_APPS),
      (''DATABASES'', DATABASES env),
      (''CACHES'', CACHES env),
      (''SECRET_KEY'', SECRET_KEY),
      (''DEFAULT_AUTO_FIELD'', DEFAULT_AUTO_FIELD)]"

section \<open>Schema declarations: blog/models.py and shop/models.py\<close>

text \<open>
  Every model class gets the implicit primary key \<open>id\<close> of \<open>DEFAULT_AUTO_FIELD\<close>; it is the
  field \<open>pk\<close> below. A \<open>DateTimeField\<close> holds a point in time, here a reading of the clock
  in ticks. The arguments a field is declared with are recorded as data, one constant for
  each declaring line of the source; what a keyword leaves out has the framework's default
  (\<open>unique\<close>, \<open>null\<close> and \<open>auto_now\<close> are off, no validator is listed).
\<close>

type_synonym pk = nat
type_synonym datetime = nat

datatype on_delete = CASCADE | PROTECT | SET_NULL

record CharField =
  max_length :: nat
  unique :: bool

record DateTimeField =
  auto_now :: bool
  auto_now_add :: bool

record ForeignKey =
  to :: string
  on_delete :: on_delete
  null :: bool

record ManyToManyField =
  to :: string

text \<open>
  A decimal number as \<open>Decimal.as_tuple()\<close> gives it: a sign (0 or 1), the digits of the
  coefficient and an exponent; \<open>-1.00\<close> is sign 1, digits 1 0 0, exponent -2.
\<close>

record Decimal =
  sign :: nat
  digits :: "nat list"
  exponent :: int

record DecimalField =
  max_digits :: nat
  decimal_places :: nat
  validators :: "(Decimal \<Rightarrow> bool) list"

subsection \<open>blog/models.py\<close>

record Post =
  pk :: pk
  title :: string
  content :: string
  author :: string
  published_date :: datetime
  is_published :: bool

definition Post_title :: CharField where
  "Post_title = \<lparr>max_length = 200, unique = False\<rparr>"

definition Post_author :: CharField where
  "Post_author = \<lparr>max_length = 100, unique = False\<rparr>"

definition Post_published_date :: DateTimeField where
  "Post_published_date = \<lparr>auto_now = False, auto_now_add = True\<rparr>"

definition Post_is_published_default :: bool where
  "Post_is_published_default = False"

text \<open>The column of \<open>Comment.post\<close> is \<open>post_id\<close>; \<open>None\<close> is the null reference.\<close>

record Comment =
  pk :: pk
  post_id :: "pk option"
  author :: string
  content :: string

definition Comment_post :: ForeignKey where
  "Comment_post = \<lparr>ForeignKey.to = ''Post'', on_delete = CASCADE, null = False\<rparr>"

definition Comment_author :: CharField where
  "Comment_author = \<lparr>max_length = 100, unique = False\<rparr>"

text \<open>
  \<open>Tag.posts\<close> is no column of the tag's row: its pairs (tag, post) are the rows of the join
  table \<open>tag_posts\<close> of the database.
\<close>

record Tag =
  pk :: pk
  name :: string

definition Tag_name :: CharField where
  "Tag_name = \<lparr>max_length = 50, unique = True\<rparr>"

definition Tag_posts :: ManyToManyField where
  "Tag_posts = \<lparr>ManyToManyField.to = ''Post''\<rparr>"

subsection \<open>shop/models.py\<close>

record Product =
  pk :: pk
  name :: string
  description :: string
  price :: Decimal
  stock :: int

definition Product_name :: CharField where
  "Product_name = \<lparr>max_length = 200, unique = False\<rparr>"

definition Product_price :: DecimalField where
  "Product_price = \<lparr>max_digits = 10, decimal_places = 2, validators = []\<rparr>"

definition Product_stock_default :: int where
  "Product_stock_default = 0"

record Order =
  pk :: pk
  customer_name :: string
  order_date :: datetime
  total :: Decimal
  product_id :: "pk option"

definition Order_customer_name :: CharField where
  "Order_customer_name = \<lparr>max_length = 200, unique = False\<rparr>"

definition Order_order_date :: DateTimeField where
  "Order_order_date = \<lparr>auto_now = False, auto_now_add = True\<rparr>"

definition Order_total :: DecimalField where
  "Order_total = \<lparr>max_digits = 10, decimal_places = 2, validators = []\<rparr>"

definition Order_product :: ForeignKey where
  "Order_product = \<lparr>ForeignKey.to = ''Product'', on_delete = CASCADE, null = False\<rparr>"

section \<open>What the declarations mean to the storage layer\<close>

subsection \<open>Constraints of a decimal field\<close>

text \<open>
  Modelled from the spec: the check of "decimal, 10 digits/2 fractional" (section 3), which
  the framework's \<open>DecimalValidator\<close> carries out and no file of the repository defines. It
  counts the digits of the value and the digits after the point, and accepts when the
  digits are at most \<open>max_digits\<close>, the decimals at most \<open>decimal_places\<close> and the digits
  before the point at most their difference. The constraints declared for a field are the
  validators listed in its declaration followed by this one. Neither reads the sign.
\<close>

definition DecimalValidator :: "nat \<Rightarrow> nat \<Rightarrow> Decimal \<Rightarrow> bool" where
  "DecimalValidator maxd places v =
     (let n = int (length (digits v));
          e = exponent v;
          ds = (if e \<ge> 0 then (if digits v \<noteq> [0] then n + e else n)
                else (if \<bar>e\<bar> > n then \<bar>e\<bar> else n));
          decimals = (if e \<ge> 0 then 0 else \<bar>e\<bar>);
          whole_digits = ds - decimals
      in \<not> ds > int maxd \<and> \<not> decimals > int places
         \<and> \<not> whole_digits > int maxd - int places)"

definition DecimalField_validators :: "DecimalField \<Rightarrow> (Decimal \<Rightarrow> bool) list" where
  "DecimalField_validators f =
     validators f @ [DecimalValidator (max_digits f) (decimal_places f)]"

definition run_validators :: "DecimalField \<Rightarrow> Decimal \<Rightarrow> bool" where
  "run_validators f v = list_all (\<lambda>check. check v) (DecimalField_validators f)"

text \<open>A decimal is below zero when its sign is 1 and its coefficient is not zero.\<close>

definition is_negative :: "Decimal \<Rightarrow> bool" where
  "is_negative d = (sign d = 1 \<and> list_ex (\<lambda>x. x \<noteq> 0) (digits d))"

subsection \<open>The stored state\<close>

text \<open>
  Modelled from the spec: the persistent store of section 3, five tables of rows and the
  join table of the many-to-many relationship, in insertion order. The rows are owned by
  the store of the external framework; the repository declares their shape only.
\<close>

record db =
  posts :: "Post list"
  comments :: "Comment list"
  tags :: "Tag list"
  tag_posts :: "(pk \<times> pk) list"
  products :: "Product list"
  orders :: "Order list"

definition empty_db :: db where
  "empty_db = \<lparr>posts = [], comments = [], tags = [], tag_posts = [],
               products = [], orders = []\<rparr>"

text \<open>The posts associated with a tag: the second components of its join rows.\<close>

definition Tag_post_set :: "db \<Rightarrow> pk \<Rightarrow> pk set" where
  "Tag_post_set db t = set (map snd (filter (\<lambda>tp. fst tp = t) (tag_posts db)))"

subsection \<open>Storage operations\<close>

text \<open>
  Modelled from the spec: the operations of section 4.1 (create, update, delete,
  cascade-delete, many-to-many join management) and the violations the storage layer
  raises (duplicate Tag name, missing foreign key; a null in a column that is not nullable;
  no row with the given key). They are the ORM's, and no file of the repository defines
  them. Each operation returns the error, if any, and the store afterwards; a statement
  that is rejected writes nothing. Every rule is the one the declared option selects:
  \<^item> \<open>pre_save\<close>: a \<open>DateTimeField\<close> with \<open>auto_now_add\<close> is written with the clock's reading
    when the row is added; in every other write it is written with the value the saved
    instance carries. This rule is the framework's documented one and is not taken from
    the spec, whose section 3 calls the date immutable after creation; nothing under src/
    decides between the two;
  \<^item> \<open>check_reference\<close>: a foreign key must name an existing row, and may be null only when
    declared \<open>null=True\<close>;
  \<^item> \<open>collect_related\<close>: on deletion of a referenced row, \<open>CASCADE\<close> deletes the referring
    rows, \<open>PROTECT\<close> refuses the deletion while there are any, \<open>SET_NULL\<close> nulls their
    reference;
  \<^item> a \<open>unique\<close> column rejects a value another row already holds;
  \<^item> the rows of the join table cascade with both of their ends.
  Lengths and decimal precision are not checked when a row is written.
\<close>

datatype db_error =
    UniqueViolation
  | ForeignKeyViolation
  | NotNullViolation
  | ProtectedError
  | DoesNotExist

definition next_pk :: "pk list \<Rightarrow> pk" where
  "next_pk ks = Suc (fold max ks 0)"

definition pre_save :: "DateTimeField \<Rightarrow> bool \<Rightarrow> datetime \<Rightarrow> datetime \<Rightarrow> datetime" where
  "pre_save f add now v =
     (if auto_now f \<or> (auto_now_add f \<and> add) then now else v)"

definition check_reference :: "ForeignKey \<Rightarrow> pk list \<Rightarrow> pk option \<Rightarrow> db_error option" where
  "check_reference f ks v =
     (case v of
        None \<Rightarrow> (if null f then None else Some NotNullViolation)
      | Some k \<Rightarrow> (if k \<in> set ks then None else Some ForeignKeyViolation))"

definition collect_related ::
  "on_delete \<Rightarrow> ('r \<Rightarrow> pk option) \<Rightarrow> ('r \<Rightarrow> 'r) \<Rightarrow> pk \<Rightarrow> 'r list \<Rightarrow> db_error + 'r list" where
  "collect_related rule fk set_null k rows =
     (case rule of
        CASCADE \<Rightarrow> Inr (filter (\<lambda>r. fk r \<noteq> Some k) rows)
      | PROTECT \<Rightarrow>
          (if list_ex (\<lambda>r. fk r = Some k) rows then Inl ProtectedError else Inr rows)
      | SET_NULL \<Rightarrow> Inr (map (\<lambda>r. if fk r = Some k then set_null r else r) rows))"

definition create_post :: "datetime \<Rightarrow> Post \<Rightarrow> db \<Rightarrow> db_error option \<times> db" where
  "create_post now inst db =
     (None, db\<lparr>posts := posts db @
        [inst\<lparr>Post.pk := next_pk (map Post.pk (posts db)),
              published_date := pre_save Post_published_date True now (published_date inst)\<rparr>]\<rparr>)"

definition update_post :: "datetime \<Rightarrow> Post \<Rightarrow> db \<Rightarrow> db_error option \<times> db" where
  "update_post now inst db =
     (if Post.pk inst \<in> set (map Post.pk (posts db))
      then (None, db\<lparr>posts := map (\<lambda>p. if Post.pk p = Post.pk inst
              then inst\<lparr>published_date := pre_save Post_published_date False now (published_date inst)\<rparr>
              else p) (posts db)\<rparr>)
      else (Some DoesNotExist, db))"

definition delete_post :: "pk \<Rightarrow> db \<Rightarrow> db_error option \<times> db" where
  "delete_post k db =
     (if k \<in> set (map Post.pk (posts db))
      then (case collect_related (on_delete Comment_post) post_id (\<lambda>c. c\<lparr>post_id := None\<rparr>) k (comments db) of
              Inl e \<Rightarrow> (Some e, db)
            | Inr cs \<Rightarrow> (None, db\<lparr>posts := filter (\<lambda>p. Post.pk p \<noteq> k) (posts db),
                              comments := cs,
                              tag_posts := filter (\<lambda>tp. snd tp \<noteq> k) (tag_posts db)\<rparr>))
      else (Some DoesNotExist, db))"

definition create_comment :: "Comment \<Rightarrow> db \<Rightarrow> db_error option \<times> db" where
  "create_comment inst db =
     (case check_reference Comment_post (map Post.pk (posts db)) (post_id inst) of
        Some e \<Rightarrow> (Some e, db)
      | None \<Rightarrow> (None, db\<lparr>comments := comments db @
          [inst\<lparr>Comment.pk := next_pk (map Comment.pk (comments db))\<rparr>]\<rparr>))"

definition update_comment :: "Comment \<Rightarrow> db \<Rightarrow> db_error option \<times> db" where
  "update_comment inst db =
     (if Comment.pk inst \<in> set (map Comment.pk (comments db))
      then (case check_reference Comment_post (map Post.pk (posts db)) (post_id inst) of
              Some e \<Rightarrow> (Some e, db)
            | None \<Rightarrow> (None, db\<lparr>comments := map (\<lambda>c. if Comment.pk c = Comment.pk inst
                then inst else c) (comments db)\<rparr>))
      else (Some DoesNotExist, db))"

definition delete_comment :: "pk \<Rightarrow> db \<Rightarrow> db_error option \<times> db" where
  "delete_comment k db =
     (if k \<in> set (map Comment.pk (comments db))
      then (None, db\<lparr>comments := filter (\<lambda>c. Comment.pk c \<noteq> k) (comments db)\<rparr>)
      else (Some DoesNotExist, db))"

definition create_tag :: "Tag \<Rightarrow> db \<Rightarrow> db_error option \<times> db" where
  "create_tag inst db =
     (if unique Tag_name \<and> Tag.name inst \<in> set (map Tag.name (tags db))
      then (Some UniqueViolation, db)
      else (None, db\<lparr>tags := tags db @
          [inst\<lparr>Tag.pk := next_pk (map Tag.pk (tags db))\<rparr>]\<rparr>))"

definition update_tag :: "Tag \<Rightarrow> db \<Rightarrow> db_error option \<times> db" where
  "update_tag inst db =
     (if Tag.pk inst \<in> set (map Tag.pk (tags db))
      then (if unique Tag_name \<and>
               Tag.name inst \<in> set (map Tag.name (filter (\<lambda>t. Tag.pk t \<noteq> Tag.pk inst) (tags db)))
            then (Some UniqueViolation, db)
            else (None, db\<lparr>tags := map (\<lambda>t. if Tag.pk t = Tag.pk inst then inst else t) (tags db)\<rparr>))
      else (Some DoesNotExist, db))"

definition delete_tag :: "pk \<Rightarrow> db \<Rightarrow> db_error option \<times> db" where
  "delete_tag k db =
     (if k \<in> set (map Tag.pk (tags db))
      then (None, db\<lparr>tags := filter (\<lambda>t. Tag.pk t \<noteq> k) (tags db),
                     tag_posts := filter (\<lambda>tp. fst tp \<noteq> k) (tag_posts db)\<rparr>)
      else (Some DoesNotExist, db))"

definition Tag_posts_add :: "pk \<Rightarrow> pk \<Rightarrow> db \<Rightarrow> db_error option \<times> db" where
  "Tag_posts_add t p db =
     (if t \<in> set (map Tag.pk (tags db)) \<and> p \<in> set (map Post.pk (posts db))
      then (if (t, p) \<in> set (tag_posts db) then (None, db)
            else (None, db\<lparr>tag_posts := tag_posts db @ [(t, p)]\<rparr>))
      else (Some ForeignKeyViolation, db))"

definition Tag_posts_remove :: "pk \<Rightarrow> pk \<Rightarrow> db \<Rightarrow> db_error option \<times> db" where
  "Tag_posts_remove t p db =
     (None, db\<lparr>tag_posts := filter (\<lambda>tp. tp \<noteq> (t, p)) (tag_posts db)\<rparr>)"

definition create_product :: "Product \<Rightarrow> db \<Rightarrow> db_error option \<times> db" where
  "create_product inst db =
     (None, db\<lparr>products := products db @
        [inst\<lparr>Product.pk := next_pk (map Product.pk (products db))\<rparr>]\<rparr>)"

definition update_product :: "Product \<Rightarrow> db \<Rightarrow> db_error option \<times> db" where
  "update_product inst db =
     (if Product.pk inst \<in> set (map Product.pk (products db))
      then (None, db\<lparr>products := map (\<lambda>p. if Product.pk p = Product.pk inst then inst else p)
              (products db)\<rparr>)
      else (Some DoesNotExist, db))"

definition delete_product :: "pk \<Rightarrow> db \<Rightarrow> db_error option \<times> db" where
  "delete_product k db =
     (if k \<in> set (map Product.pk (products db))
      then (case collect_related (on_delete Order_product) product_id (\<lambda>r. r\<lparr>product_id := None\<rparr>) k (orders db) of
              Inl e \<Rightarrow> (Some e, db)
            | Inr os \<Rightarrow> (None, db\<lparr>products := filter (\<lambda>p. Product.pk p \<noteq> k) (products db),
                              orders := os\<rparr>))
      else (Some DoesNotExist, db))"

definition create_order :: "datetime \<Rightarrow> Order \<Rightarrow> db \<Rightarrow> db_error option \<times> db" where
  "create_order now inst db =
     (case check_reference Order_product (map Product.pk (products db)) (product_id inst) of
        Some e \<Rightarrow> (Some e, db)
      | None \<Rightarrow> (None, db\<lparr>orders := orders db @
          [inst\<lparr>Order.pk := next_pk (map Order.pk (orders db)),
                order_date := pre_save Order_order_date True now (order_date inst)\<rparr>]\<rparr>))"

definition update_order :: "datetime \<Rightarrow> Order \<Rightarrow> db \<Rightarrow> db_error option \<times> db" where
  "update_order now inst db =
     (if Order.pk inst \<in> set (map Order.pk (orders db))
      then (case check_reference Order_product (map Product.pk (products db)) (product_id inst) of
              Some e \<Rightarrow> (Some e, db)
            | None \<Rightarrow> (None, db\<lparr>orders := map (\<lambda>r. if Order.pk r = Order.pk inst
                then inst\<lparr>order_date := pre_save Order_order_date False now (order_date inst)\<rparr>
                else r) (orders db)\<rparr>))
      else (Some DoesNotExist, db))"

definition delete_order :: "pk \<Rightarrow> db \<Rightarrow> db_error option \<times> db" where
  "delete_order k db =
     (if k \<in> set (map Order.pk (orders db))
      then (None, db\<lparr>orders := filter (\<lambda>r. Order.pk r \<noteq> k) (orders db)\<rparr>)
      else (Some DoesNotExist, db))"

text \<open>
  Modelled from the spec: the requests the external framework's data layer can make of
  the store, one constructor for each operation above, and the states the store can be in:
  the empty store and whatever a request, accepted or rejected, leaves behind.
\<close>

datatype operation =
    CreatePost Post | UpdatePost Post | DeletePost pk
  | CreateComment Comment | UpdateComment Comment | DeleteComment pk
  | CreateTag Tag | UpdateTag Tag | DeleteTag pk
  | AddTagPost pk pk | RemoveTagPost pk pk
  | CreateProduct Product | UpdateProduct Product | DeleteProduct pk
  | CreateOrder Order | UpdateOrder Order | DeleteOrder pk

fun execute :: "datetime \<Rightarrow> operation \<Rightarrow> db \<Rightarrow> db_error option \<times> db" where
  "execute now (CreatePost inst) db = create_post now inst db"
| "execute now (UpdatePost inst) db = update_post now inst db"
| "execute now (DeletePost k) db = delete_post k db"
| "execute now (CreateComment inst) db = create_comment inst db"
| "execute now (UpdateComment inst) db = update_comment inst db"
| "execute now (DeleteComment k) db = delete_comment k db"
| "execute now (CreateTag inst) db = create_tag inst db"
| "execute now (UpdateTag inst) db = update_tag inst db"
| "execute now (DeleteTag k) db = delete_tag k db"
| "execute now (AddTagPost t p) db = Tag_posts_add t p db"
| "execute now (RemoveTagPost t p) db = Tag_posts_remove t p db"
| "execute now (CreateProduct inst) db = create_product inst db"
| "execute now (UpdateProduct inst) db = update_product inst db"
| "execute now (DeleteProduct k) db = delete_product k db"
| "execute now (CreateOrder inst) db = create_order now inst db"
| "execute now (UpdateOrder inst) db = update_order now inst db"
| "execute now (DeleteOrder k) db = delete_order k db"

inductive reachable :: "db \<Rightarrow> bool" where
  initial: "reachable empty_db"
| step: "reachable db \<Longrightarrow> reachable (snd (execute now op db))"

text \<open>
  Every comment refers to a stored post and every order to a stored product; a null
  reference refers to nothing.
\<close>

definition references_valid :: "db \<Rightarrow> bool" where
  "references_valid db =
     (list_all (\<lambda>c. case post_id c of None \<Rightarrow> False
                    | Some k \<Rightarrow> k \<in> set (map Post.pk (posts db))) (comments db)
      \<and> list_all (\<lambda>r. case product_id r of None \<Rightarrow> False
                      | Some k \<Rightarrow> k \<in> set (map Product.pk (products db))) (orders db))"

subsection \<open>Example rows\<close>

definition demo_post :: Post where
  "demo_post = \<lparr>Post.pk = 0, title = ''Hello'', Post.content = ''First post'',
                 Post.author = ''ada'', published_date = 7, is_published = False\<rparr>"

definition demo_comment :: Comment where
  "demo_comment = \<lparr>Comment.pk = 0, post_id = Some 1, Comment.author = ''bob'',
                    Comment.content = ''Nice''\<rparr>"

definition minus_one :: Decimal where
  "minus_one = \<lparr>sign = 1, digits = [1, 0, 0], exponent = - 2\<rparr>"

definition demo_product :: Product where
  "demo_product = \<lparr>Product.pk = 0, Product.name = ''Mug'', description = ''A mug'',
                    price = minus_one, stock = 3\<rparr>"

definition demo_order :: Order where
  "demo_order = \<lparr>Order.pk = 0, customer_name = ''carol'', order_date = 0,
                  total = minus_one, product_id = Some 1\<rparr>"

definition demo_db :: db where
  "demo_db =
     \<lparr>posts = [demo_post\<lparr>Post.pk := 1\<rparr>, demo_post\<lparr>Post.pk := 2\<rparr>],
      comments = [demo_comment\<lparr>Comment.pk := 1\<rparr>,
                  demo_comment\<lparr>Comment.pk := 2, post_id := Some 2\<rparr>,
                  demo_comment\<lparr>Comment.pk := 3\<rparr>],
      tags = [\<lparr>Tag.pk = 1, Tag.name = ''news''\<rparr>, \<lparr>Tag.pk = 2, Tag.name = ''misc''\<rparr>],
      tag_posts = [(1, 1), (1, 2), (2, 1)],
      products = [demo_product\<lparr>Product.pk := 1\<rparr>, demo_product\<lparr>Product.pk := 2\<rparr>],
      orders = [demo_order\<lparr>Order.pk := 1\<rparr>,
                demo_order\<lparr>Order.pk := 2, product_id := Some 2\<rparr>]\<rparr>"

text \<open>A store built by two requests: a post is created, then a comment on it.\<close>

definition demo_store :: db where
  "demo_store =
     snd (execute 2 (CreateComment demo_comment) (snd (execute 1 (CreatePost demo_post) empty_db)))"

text \<open>A store built by two requests: a product is created, then an order for it.\<close>

definition shop_store :: db where
  "shop_store =
     snd (execute 2 (CreateOrder demo_order) (snd (execute 1 (CreateProduct demo_product) empty_db)))"

section \<open>Properties of the configuration\<close>

lemma getenv_unset: "getenv Map.empty key dflt = dflt"
  by (simp add: getenv_def)

text \<open>
  C1. With no environment variable set the database settings are name \<open>demodb\<close>, user
  \<open>demo_user\<close>, password \<open>demo_password\<close>, host \<open>localhost\<close>, port \<open>5432\<close>, and the cache host
  and port are \<open>localhost\<close> and \<open>6379\<close>. In every environment the tunables are fixed: database
  connect timeout 10, cache socket connect and read timeouts 5 each, database connection
  max age 60.
\<close>

theorem defaults_and_tunables:
  "subscript (settings Map.empty) [''DATABASES'', ''default'', ''NAME''] = Some (PyStr ''demodb'')
   \<and> subscript (settings Map.empty) [''DATABASES'', ''default'', ''USER''] = Some (PyStr ''demo_user'')
   \<and> subscript (settings Map.empty) [''DATABASES'', ''default'', ''PASSWORD''] = Some (PyStr ''demo_password'')
   \<and> subscript (settings Map.empty) [''DATABASES'', ''default'', ''HOST''] = Some (PyStr ''localhost'')
   \<and> subscript (settings Map.empty) [''DATABASES'', ''default'', ''PORT''] = Some (PyStr ''5432'')
   \<and> REDIS_HOST Map.empty = ''localhost''
   \<and> REDIS_PORT Map.empty = ''6379''
   \<and> subscript (settings Map.empty) [''CACHES'', ''default'', ''LOCATION'']
       = Some (PyStr ''redis://localhost:6379/1'')
   \<and> subscript (settings env) [''DATABASES'', ''default'', ''OPTIONS'', ''connect_timeout'']
       = Some (PyInt 10)
   \<and> subscript (settings env) [''CACHES'', ''default'', ''OPTIONS'', ''SOCKET_CONNECT_TIMEOUT'']
       = Some (PyInt 5)
   \<and> subscript (settings env) [''CACHES'', ''default'', ''OPTIONS'', ''SOCKET_TIMEOUT'']
       = Some (PyInt 5)
   \<and> subscript (settings env) [''DATABASES'', ''default'', ''CONN_MAX_AGE''] = Some (PyInt 60)"
  by (simp add: settings_def DATABASES_def CACHES_def REDIS_HOST_def REDIS_PORT_def getenv_unset)

text \<open>
  C2, as the spec states it: the secret key is resolved by reading a named environment
  variable. No variable name and default would do: the key is the same literal in the
  environment that sets that variable to another string.
\<close>

theorem secret_key_not_from_environment_counterexample:
  "\<not> (\<exists>key dflt. \<forall>env.
        subscript (settings env) [''SECRET_KEY''] = Some (PyStr (getenv env key dflt)))"
proof
  assume "\<exists>key dflt. \<forall>env.
        subscript (settings env) [''SECRET_KEY''] = Some (PyStr (getenv env key dflt))"
  then obtain key dflt where h: "\<And>env.
        subscript (settings env) [''SECRET_KEY''] = Some (PyStr (getenv env key dflt))"
    by blast
  have "subscript (settings [key \<mapsto> ''set-in-the-environment'']) [''SECRET_KEY'']
        = Some (PyStr ''set-in-the-environment'')"
    using h [of "[key \<mapsto> ''set-in-the-environment'']"] by (simp add: getenv_def)
  then show False
    by (simp add: settings_def SECRET_KEY_def)
qed

text \<open>
  C2, amended: the secret key is a static setting fixed in the module. In every process
  environment its value is the literal \<open>demo-secret-key-not-for-production\<close>; no environment
  variable is read for it.
\<close>

theorem secret_key_is_literal:
  "subscript (settings env) [''SECRET_KEY''] = Some (PyStr ''demo-secret-key-not-for-production'')"
  by (simp add: settings_def SECRET_KEY_def)

text \<open>
  C6. When the environment sets \<open>POSTGRES_HOST\<close> to \<open>db.internal\<close> and nothing else, the
  database host is \<open>db.internal\<close> and every other field keeps its default: database name,
  user, password and port, cache host and port, the tunables, and the cache settings as a
  whole.
\<close>

theorem postgres_host_override:
  "subscript (settings [''POSTGRES_HOST'' \<mapsto> ''db.internal'']) [''DATABASES'', ''default'', ''HOST'']
     = Some (PyStr ''db.internal'')
   \<and> subscript (settings [''POSTGRES_HOST'' \<mapsto> ''db.internal'']) [''DATABASES'', ''default'', ''NAME'']
     = Some (PyStr ''demodb'')
   \<and> subscript (settings [''POSTGRES_HOST'' \<mapsto> ''db.internal'']) [''DATABASES'', ''default'', ''USER'']
     = Some (PyStr ''demo_user'')
   \<and> subscript (settings [''POSTGRES_HOST'' \<mapsto> ''db.internal'']) [''DATABASES'', ''default'', ''PASSWORD'']
     = Some (PyStr ''demo_password'')
   \<and> subscript (settings [''POSTGRES_HOST'' \<mapsto> ''db.internal'']) [''DATABASES'', ''default'', ''PORT'']
     = Some (PyStr ''5432'')
   \<and> REDIS_HOST [''POSTGRES_HOST'' \<mapsto> ''db.internal''] = ''localhost''
   \<and> REDIS_PORT [''POSTGRES_HOST'' \<mapsto> ''db.internal''] = ''6379''
   \<and> subscript (settings [''POSTGRES_HOST'' \<mapsto> ''db.internal''])
         [''DATABASES'', ''default'', ''OPTIONS'', ''connect_timeout'']
     = Some (PyInt 10)
   \<and> subscript (settings [''POSTGRES_HOST'' \<mapsto> ''db.internal''])
         [''DATABASES'', ''default'', ''CONN_MAX_AGE'']
     = Some (PyInt 60)
   \<and> subscript (settings [''POSTGRES_HOST'' \<mapsto> ''db.internal'']) [''DATABASES'', ''default'', ''ENGINE'']
     = subscript (settings Map.empty) [''DATABASES'', ''default'', ''ENGINE'']
   \<and> CACHES [''POSTGRES_HOST'' \<mapsto> ''db.internal''] = CACHES Map.empty
   \<and> subscript (settings [''POSTGRES_HOST'' \<mapsto> ''db.internal'']) [''CACHES'']
     = subscript (settings Map.empty) [''CACHES'']"
  by (simp add: settings_def DATABASES_def CACHES_def REDIS_HOST_def REDIS_PORT_def getenv_def)

text \<open>
  C8. In an environment where a configuration variable is absent the loader puts the
  literal default in its place: in the database entry that reads the variable, and in the
  cache location, where an absent \<open>REDIS_HOST\<close> gives the host \<open>localhost\<close> and an absent
  \<open>REDIS_PORT\<close> the port \<open>6379\<close>. Resolution has no error path: in every environment each
  configured entry is there and is the string that \<open>getenv\<close> returns for its variable and
  default.
\<close>

theorem absent_variable_gets_default:
  "(env key = None \<longrightarrow> getenv env key dflt = dflt)
   \<and> (env ''POSTGRES_DB'' = None \<longrightarrow>
        subscript (settings env) [''DATABASES'', ''default'', ''NAME''] = Some (PyStr ''demodb''))
   \<and> (env ''POSTGRES_USER'' = None \<longrightarrow>
        subscript (settings env) [''DATABASES'', ''default'', ''USER''] = Some (PyStr ''demo_user''))
   \<and> (env ''POSTGRES_PASSWORD'' = None \<longrightarrow>
        subscript (settings env) [''DATABASES'', ''default'', ''PASSWORD'']
          = Some (PyStr ''demo_password''))
   \<and> (env ''POSTGRES_HOST'' = None \<longrightarrow>
        subscript (settings env) [''DATABASES'', ''default'', ''HOST''] = Some (PyStr ''localhost''))
   \<and> (env ''POSTGRES_PORT'' = None \<longrightarrow>
        subscript (settings env) [''DATABASES'', ''default'', ''PORT''] = Some (PyStr ''5432''))
   \<and> (env ''REDIS_HOST'' = None \<longrightarrow> REDIS_HOST env = ''localhost'')
   \<and> (env ''REDIS_PORT'' = None \<longrightarrow> REDIS_PORT env = ''6379'')
   \<and> (env ''REDIS_HOST'' = None \<longrightarrow>
        subscript (settings env) [''CACHES'', ''default'', ''LOCATION'']
          = Some (PyStr (''redis://localhost:'' @ getenv env ''REDIS_PORT'' ''6379'' @ ''/1'')))
   \<and> (env ''REDIS_PORT'' = None \<longrightarrow>
        subscript (settings env) [''CACHES'', ''default'', ''LOCATION'']
          = Some (PyStr (''redis://'' @ getenv env ''REDIS_HOST'' ''localhost'' @ '':6379/1'')))
   \<and> (env ''REDIS_HOST'' = None \<and> env ''REDIS_PORT'' = None \<longrightarrow>
        subscript (settings env) [''CACHES'', ''default'', ''LOCATION'']
          = Some (PyStr ''redis://localhost:6379/1''))
   \<and> subscript (settings env) [''DATABASES'', ''default'', ''NAME'']
        = Some (PyStr (getenv env ''POSTGRES_DB'' ''demodb''))
   \<and> subscript (settings env) [''DATABASES'', ''default'', ''USER'']
        = Some (PyStr (getenv env ''POSTGRES_USER'' ''demo_user''))
   \<and> subscript (settings env) [''DATABASES'', ''default'', ''PASSWORD'']
        = Some (PyStr (getenv env ''POSTGRES_PASSWORD'' ''demo_password''))
   \<and> subscript (settings env) [''DATABASES'', ''default'', ''HOST'']
        = Some (PyStr (getenv env ''POSTGRES_HOST'' ''localhost''))
   \<and> subscript (settings env) [''DATABASES'', ''default'', ''PORT'']
        = Some (PyStr (getenv env ''POSTGRES_PORT'' ''5432''))
   \<and> subscript (settings env) [''CACHES'', ''default'', ''LOCATION'']
        = Some (PyStr (''redis://'' @ getenv env ''REDIS_HOST'' ''localhost'' @ '':''
                       @ getenv env ''REDIS_PORT'' ''6379'' @ ''/1''))
   \<and> (\<exists>name user password host port location.
        subscript (settings env) [''DATABASES'', ''default'', ''NAME''] = Some (PyStr name)
        \<and> subscript (settings env) [''DATABASES'', ''default'', ''USER''] = Some (PyStr user)
        \<and> subscript (settings env) [''DATABASES'', ''default'', ''PASSWORD''] = Some (PyStr password)
        \<and> subscript (settings env) [''DATABASES'', ''default'', ''HOST''] = Some (PyStr host)
        \<and> subscript (settings env) [''DATABASES'', ''default'', ''PORT''] = Some (PyStr port)
        \<and> subscript (settings env) [''CACHES'', ''default'', ''LOCATION''] = Some (PyStr location))"
  by (simp add: settings_def DATABASES_def CACHES_def REDIS_HOST_def REDIS_PORT_def getenv_def)

text \<open>
  An environment that sets an unrelated variable only: every default is substituted, in
  the database entries and in the cache location.
\<close>

theorem absent_variable_gets_default_witness:
  "[''HOME'' \<mapsto> ''/root''] ''POSTGRES_DB'' = None
   \<and> [''HOME'' \<mapsto> ''/root''] ''POSTGRES_USER'' = None
   \<and> [''HOME'' \<mapsto> ''/root''] ''POSTGRES_PASSWORD'' = None
   \<and> [''HOME'' \<mapsto> ''/root''] ''POSTGRES_HOST'' = None
   \<and> [''HOME'' \<mapsto> ''/root''] ''POSTGRES_PORT'' = None
   \<and> [''HOME'' \<mapsto> ''/root''] ''REDIS_HOST'' = None
   \<and> [''HOME'' \<mapsto> ''/root''] ''REDIS_PORT'' = None
   \<and> getenv [''HOME'' \<mapsto> ''/root''] ''POSTGRES_DB'' ''demodb'' = ''demodb''
   \<and> subscript (settings [''HOME'' \<mapsto> ''/root'']) [''DATABASES'', ''default'', ''NAME'']
       = Some (PyStr ''demodb'')
   \<and> subscript (settings [''HOME'' \<mapsto> ''/root'']) [''DATABASES'', ''default'', ''USER'']
       = Some (PyStr ''demo_user'')
   \<and> subscript (settings [''HOME'' \<mapsto> ''/root'']) [''DATABASES'', ''default'', ''PASSWORD'']
       = Some (PyStr ''demo_password'')
   \<and> subscript (settings [''HOME'' \<mapsto> ''/root'']) [''DATABASES'', ''default'', ''HOST'']
       = Some (PyStr ''localhost'')
   \<and> subscript (settings [''HOME'' \<mapsto> ''/root'']) [''DATABASES'', ''default'', ''PORT'']
       = Some (PyStr ''5432'')
   \<and> REDIS_HOST [''HOME'' \<mapsto> ''/root''] = ''localhost''
   \<and> REDIS_PORT [''HOME'' \<mapsto> ''/root''] = ''6379''
   \<and> subscript (settings [''HOME'' \<mapsto> ''/root'']) [''CACHES'', ''default'', ''LOCATION'']
       = Some (PyStr ''redis://localhost:6379/1'')"
  using absent_variable_gets_default
    [where env = "[''HOME'' \<mapsto> ''/root'']" and key = "''POSTGRES_DB''" and dflt = "''demodb''"]
  by (simp add: getenv_def)

text \<open>
  C10. In every environment the cache location is \<open>redis://\<close>, the cache host, a colon, the
  cache port and \<open>/1\<close>, where host and port are read from \<open>REDIS_HOST\<close> and \<open>REDIS_PORT\<close>. The
  scheme in front and the database index at the end are the same in every environment.
\<close>

theorem cache_location_format:
  "subscript (settings env) [''CACHES'', ''default'', ''LOCATION'']
     = Some (PyStr (''redis://'' @ getenv env ''REDIS_HOST'' ''localhost'' @ '':''
                    @ getenv env ''REDIS_PORT'' ''6379'' @ ''/1''))
   \<and> REDIS_HOST env = getenv env ''REDIS_HOST'' ''localhost''
   \<and> REDIS_PORT env = getenv env ''REDIS_PORT'' ''6379''
   \<and> (\<exists>loc. subscript (settings env) [''CACHES'', ''default'', ''LOCATION''] = Some (PyStr loc)
        \<and> take 8 loc = ''redis://'' \<and> drop (length loc - 2) loc = ''/1'')"
  by (simp add: settings_def CACHES_def REDIS_HOST_def REDIS_PORT_def)

section \<open>Properties of the schema\<close>

text \<open>
  C7. The declarations put no lower bound on \<open>Product.price\<close> and \<open>Order.total\<close>: a decimal
  below zero, \<open>-1.00\<close>, passes every constraint declared for either field.
\<close>

theorem negative_decimal_accepted:
  "(\<exists>d. is_negative d \<and> run_validators Product_price d)
   \<and> (\<exists>d. is_negative d \<and> run_validators Order_total d)"
proof -
  have "is_negative minus_one"
    by (simp add: is_negative_def minus_one_def)
  moreover have "run_validators Product_price minus_one"
    by (simp add: run_validators_def DecimalField_validators_def Product_price_def
        DecimalValidator_def minus_one_def)
  moreover have "run_validators Order_total minus_one"
    by (simp add: run_validators_def DecimalField_validators_def Order_total_def
        DecimalValidator_def minus_one_def)
  ultimately show ?thesis by blast
qed

section \<open>Properties of the storage operations\<close>

text \<open>
  Two facts about the date-writing rule above. Creation stamps the published date with the
  clock's reading, whatever date the caller supplied, and an update that carries the stored
  date leaves the dates of the table as they were. An update that assigns another date
  stores it: under this rule the column is not read-only.
\<close>

lemma published_date_stamped_on_add_only:
  "(\<exists>row. posts (snd (create_post now inst db)) = posts db @ [row] \<and> published_date row = now)
   \<and> ((\<forall>p\<in>set (posts db). Post.pk p = Post.pk inst \<longrightarrow> published_date p = published_date inst)
        \<longrightarrow> map published_date (posts (snd (update_post later inst db)))
            = map published_date (posts db))"
  by (auto simp: update_post_def create_post_def pre_save_def Post_published_date_def)

lemma published_date_reassigned:
  "fst (update_post 200 (demo_post\<lparr>Post.pk := 1, published_date := 5\<rparr>)
          (snd (create_post 100 demo_post empty_db))) = None
   \<and> map published_date (posts (snd (create_post 100 demo_post empty_db))) = [100]
   \<and> map published_date
        (posts (snd (update_post 200 (demo_post\<lparr>Post.pk := 1, published_date := 5\<rparr>)
                       (snd (create_post 100 demo_post empty_db))))) = [5]"
  by (simp add: update_post_def create_post_def empty_db_def demo_post_def next_pk_def
      pre_save_def Post_published_date_def)

text \<open>
  C4. In every store, deleting a stored post removes it, every comment that refers to it
  and its pair in every tag's post set, and nothing else: the other posts, comments and
  pairs, the tags, the products and the orders stay. In every store, deleting a stored
  product removes it and every order that refers to it, and nothing else. Each half needs
  only that the row to delete is stored.
\<close>

theorem delete_cascades:
  "(k \<in> set (map Post.pk (posts db)) \<longrightarrow>
      fst (delete_post k db) = None
      \<and> posts (snd (delete_post k db)) = filter (\<lambda>p. Post.pk p \<noteq> k) (posts db)
      \<and> comments (snd (delete_post k db)) = filter (\<lambda>c. post_id c \<noteq> Some k) (comments db)
      \<and> tag_posts (snd (delete_post k db)) = filter (\<lambda>tp. snd tp \<noteq> k) (tag_posts db)
      \<and> (\<forall>t. Tag_post_set (snd (delete_post k db)) t = Tag_post_set db t - {k})
      \<and> tags (snd (delete_post k db)) = tags db
      \<and> products (snd (delete_post k db)) = products db
      \<and> orders (snd (delete_post k db)) = orders db)
   \<and> (j \<in> set (map Product.pk (products db)) \<longrightarrow>
      fst (delete_product j db) = None
      \<and> products (snd (delete_product j db)) = filter (\<lambda>p. Product.pk p \<noteq> j) (products db)
      \<and> orders (snd (delete_product j db)) = filter (\<lambda>r. product_id r \<noteq> Some j) (orders db)
      \<and> posts (snd (delete_product j db)) = posts db
      \<and> comments (snd (delete_product j db)) = comments db
      \<and> tags (snd (delete_product j db)) = tags db
      \<and> tag_posts (snd (delete_product j db)) = tag_posts db)"
  by (auto simp: delete_post_def delete_product_def collect_related_def Comment_post_def
      Order_product_def Tag_post_set_def)

text \<open>
  In the example store, post 1 has comments 1 and 3 and is tagged by tags 1 and 2;
  product 2 has order 2. The store of one post and one comment has no product at all, and
  deleting its post takes the comment with it all the same; a store of one product and one
  order has no post, and deleting the product takes the order.
\<close>

theorem delete_cascades_witness:
  "1 \<in> set (map Post.pk (posts demo_db)) \<and> 2 \<in> set (map Product.pk (products demo_db))
   \<and> map Comment.pk (comments demo_db) = [1, 2, 3]
   \<and> map Comment.pk (comments (snd (delete_post 1 demo_db))) = [2]
   \<and> map Post.pk (posts (snd (delete_post 1 demo_db))) = [2]
   \<and> tag_posts (snd (delete_post 1 demo_db)) = [(1, 2)]
   \<and> tags (snd (delete_post 1 demo_db)) = tags demo_db
   \<and> orders (snd (delete_post 1 demo_db)) = orders demo_db
   \<and> map Order.pk (orders (snd (delete_product 2 demo_db))) = [1]
   \<and> map Product.pk (products (snd (delete_product 2 demo_db))) = [1]
   \<and> comments (snd (delete_product 2 demo_db)) = comments demo_db
   \<and> products demo_store = [] \<and> 1 \<in> set (map Post.pk (posts demo_store))
   \<and> map Comment.pk (comments demo_store) = [1]
   \<and> comments (snd (delete_post 1 demo_store)) = []
   \<and> posts (snd (delete_post 1 demo_store)) = []
   \<and> posts shop_store = [] \<and> 1 \<in> set (map Product.pk (products shop_store))
   \<and> map Order.pk (orders shop_store) = [1]
   \<and> orders (snd (delete_product 1 shop_store)) = []
   \<and> products (snd (delete_product 1 shop_store)) = []"
proof -
  have a: "1 \<in> set (map Post.pk (posts demo_db))"
    by (simp add: demo_db_def)
  have b: "2 \<in> set (map Product.pk (products demo_db))"
    by (simp add: demo_db_def)
  have full: "map Comment.pk (comments demo_db) = [1, 2, 3]
     \<and> map Comment.pk (comments (snd (delete_post 1 demo_db))) = [2]
     \<and> map Post.pk (posts (snd (delete_post 1 demo_db))) = [2]
     \<and> tag_posts (snd (delete_post 1 demo_db)) = [(1, 2)]
     \<and> tags (snd (delete_post 1 demo_db)) = tags demo_db
     \<and> orders (snd (delete_post 1 demo_db)) = orders demo_db
     \<and> map Order.pk (orders (snd (delete_product 2 demo_db))) = [1]
     \<and> map Product.pk (products (snd (delete_product 2 demo_db))) = [1]
     \<and> comments (snd (delete_product 2 demo_db)) = comments demo_db"
    using a b delete_cascades [of 1 demo_db 2]
    by (simp add: demo_db_def demo_comment_def demo_post_def demo_order_def demo_product_def)
  have rows: "posts demo_store = [demo_post\<lparr>Post.pk := 1, published_date := 1\<rparr>]
     \<and> comments demo_store = [demo_comment\<lparr>Comment.pk := 1\<rparr>]
     \<and> products demo_store = []"
    by (simp add: demo_store_def create_post_def create_comment_def check_reference_def
        Comment_post_def empty_db_def next_pk_def pre_save_def Post_published_date_def
        demo_comment_def)
  have c: "1 \<in> set (map Post.pk (posts demo_store))"
    by (simp add: rows)
  have blog: "map Comment.pk (comments demo_store) = [1]
     \<and> comments (snd (delete_post 1 demo_store)) = []
     \<and> posts (snd (delete_post 1 demo_store)) = []"
    using c delete_cascades [of 1 demo_store 0]
    by (simp add: rows demo_comment_def)
  have srows: "products shop_store = [demo_product\<lparr>Product.pk := 1\<rparr>]
     \<and> orders shop_store = [demo_order\<lparr>Order.pk := 1, order_date := 2\<rparr>]
     \<and> posts shop_store = []"
    by (simp add: shop_store_def create_product_def create_order_def check_reference_def
        Order_product_def empty_db_def next_pk_def pre_save_def Order_order_date_def
        demo_order_def)
  have d: "1 \<in> set (map Product.pk (products shop_store))"
    by (simp add: srows)
  have shop: "map Order.pk (orders shop_store) = [1]
     \<and> orders (snd (delete_product 1 shop_store)) = []
     \<and> products (snd (delete_product 1 shop_store)) = []"
    using d delete_cascades [of 0 shop_store 1]
    by (simp add: srows demo_order_def)
  show ?thesis
    using a b c d full rows srows blog shop by simp
qed

text \<open>
  C5. When the store holds a tag of some name, creating another tag of that name fails with
  a uniqueness violation and leaves the store as it was.
\<close>

theorem duplicate_tag_name_rejected:
  "t \<in> set (tags db) \<Longrightarrow> Tag.name inst = Tag.name t \<Longrightarrow>
   create_tag inst db = (Some UniqueViolation, db)"
  by (auto simp: create_tag_def Tag_name_def)

text \<open>The example store has a tag named \<open>news\<close>.\<close>

theorem duplicate_tag_name_rejected_witness:
  "\<lparr>Tag.pk = 1, Tag.name = ''news''\<rparr> \<in> set (tags demo_db)
   \<and> create_tag \<lparr>Tag.pk = 0, Tag.name = ''news''\<rparr> demo_db = (Some UniqueViolation, demo_db)"
proof -
  have a: "\<lparr>Tag.pk = 1, Tag.name = ''news''\<rparr> \<in> set (tags demo_db)"
    by (simp add: demo_db_def)
  show ?thesis
    using a duplicate_tag_name_rejected [OF a, of "\<lparr>Tag.pk = 0, Tag.name = ''news''\<rparr>"] by simp
qed

subsection \<open>References never dangle\<close>

lemma references_valid_iff:
  "references_valid db \<longleftrightarrow>
     (\<forall>c\<in>set (comments db). \<exists>k. post_id c = Some k \<and> k \<in> set (map Post.pk (posts db)))
     \<and> (\<forall>r\<in>set (orders db). \<exists>k. product_id r = Some k \<and> k \<in> set (map Product.pk (products db)))"
  unfolding references_valid_def list_all_iff
  by (intro arg_cong2[where f="(\<and>)"] ball_cong refl) (simp_all split: option.splits)

lemma check_reference_ok:
  "check_reference f ks v = None \<Longrightarrow> \<not> null f \<Longrightarrow> \<exists>k. v = Some k \<and> k \<in> set ks"
  by (auto simp: check_reference_def split: option.splits if_splits)

lemma pk_replace_post:
  "Post.pk inst' = Post.pk inst \<Longrightarrow>
   map Post.pk (map (\<lambda>p. if Post.pk p = Post.pk inst then inst' else p) ps) = map Post.pk ps"
  by (induction ps) auto

lemma pk_replace_product:
  "map Product.pk (map (\<lambda>p. if Product.pk p = Product.pk inst then inst else p) ps)
   = map Product.pk ps"
  by (induction ps) auto

lemma frame_update_post:
  "map Post.pk (posts (snd (update_post now inst db))) = map Post.pk (posts db)
   \<and> comments (snd (update_post now inst db)) = comments db
   \<and> products (snd (update_post now inst db)) = products db
   \<and> orders (snd (update_post now inst db)) = orders db"
  by (simp add: update_post_def pk_replace_post)

lemma frame_update_product:
  "map Product.pk (products (snd (update_product inst db))) = map Product.pk (products db)
   \<and> comments (snd (update_product inst db)) = comments db
   \<and> posts (snd (update_product inst db)) = posts db
   \<and> orders (snd (update_product inst db)) = orders db"
  by (simp add: update_product_def pk_replace_product)

lemma valid_create_post: "references_valid db \<Longrightarrow> references_valid (snd (create_post now inst db))"
  by (auto simp: references_valid_iff create_post_def)

lemma valid_update_post: "references_valid db \<Longrightarrow> references_valid (snd (update_post now inst db))"
  by (simp add: references_valid_iff frame_update_post)

lemma valid_delete_post: "references_valid db \<Longrightarrow> references_valid (snd (delete_post k db))"
  by (fastforce simp: references_valid_iff delete_post_def collect_related_def Comment_post_def)

lemma valid_create_comment: "references_valid db \<Longrightarrow> references_valid (snd (create_comment inst db))"
  by (auto simp: references_valid_iff create_comment_def Comment_post_def
      split: option.splits dest!: check_reference_ok)

lemma valid_update_comment: "references_valid db \<Longrightarrow> references_valid (snd (update_comment inst db))"
  by (auto simp: references_valid_iff update_comment_def Comment_post_def
      split: option.splits dest!: check_reference_ok)

lemma valid_delete_comment: "references_valid db \<Longrightarrow> references_valid (snd (delete_comment k db))"
  by (auto simp: references_valid_iff delete_comment_def)

lemma valid_create_tag: "references_valid db \<Longrightarrow> references_valid (snd (create_tag inst db))"
  by (auto simp: references_valid_iff create_tag_def)

lemma valid_update_tag: "references_valid db \<Longrightarrow> references_valid (snd (update_tag inst db))"
  by (auto simp: references_valid_iff update_tag_def)

lemma valid_delete_tag: "references_valid db \<Longrightarrow> references_valid (snd (delete_tag k db))"
  by (auto simp: references_valid_iff delete_tag_def)

lemma valid_Tag_posts_add: "references_valid db \<Longrightarrow> references_valid (snd (Tag_posts_add t p db))"
  by (auto simp: references_valid_iff Tag_posts_add_def)

lemma valid_Tag_posts_remove: "references_valid db \<Longrightarrow> references_valid (snd (Tag_posts_remove t p db))"
  by (auto simp: references_valid_iff Tag_posts_remove_def)

lemma valid_create_product: "references_valid db \<Longrightarrow> references_valid (snd (create_product inst db))"
  by (auto simp: references_valid_iff create_product_def)

lemma valid_update_product: "references_valid db \<Longrightarrow> references_valid (snd (update_product inst db))"
  by (simp add: references_valid_iff frame_update_product)

lemma valid_delete_product: "references_valid db \<Longrightarrow> references_valid (snd (delete_product k db))"
  by (fastforce simp: references_valid_iff delete_product_def collect_related_def Order_product_def)

lemma valid_create_order: "references_valid db \<Longrightarrow> references_valid (snd (create_order now inst db))"
  by (auto simp: references_valid_iff create_order_def Order_product_def
      split: option.splits dest!: check_reference_ok)

lemma valid_update_order: "references_valid db \<Longrightarrow> references_valid (snd (update_order now inst db))"
  by (auto simp: references_valid_iff update_order_def Order_product_def
      split: option.splits dest!: check_reference_ok)

lemma valid_delete_order: "references_valid db \<Longrightarrow> references_valid (snd (delete_order k db))"
  by (auto simp: references_valid_iff delete_order_def)

lemma valid_execute: "references_valid db \<Longrightarrow> references_valid (snd (execute now op db))"
  by (cases op)
     (simp_all add: valid_create_post valid_update_post valid_delete_post
        valid_create_comment valid_update_comment valid_delete_comment
        valid_create_tag valid_update_tag valid_delete_tag
        valid_Tag_posts_add valid_Tag_posts_remove
        valid_create_product valid_update_product valid_delete_product
        valid_create_order valid_update_order valid_delete_order)

lemma valid_empty: "references_valid empty_db"
  by (simp add: references_valid_def empty_db_def)

lemma reachable_valid: "reachable db \<Longrightarrow> references_valid db"
  by (induction rule: reachable.induct) (simp_all add: valid_empty valid_execute)

lemma references_valid_rows:
  "references_valid db \<Longrightarrow>
     (\<forall>c\<in>set (comments db). \<exists>p\<in>set (posts db). post_id c = Some (Post.pk p))
     \<and> (\<forall>r\<in>set (orders db). \<exists>p\<in>set (products db). product_id r = Some (Product.pk p))"
  by (fastforce simp: references_valid_iff)

text \<open>
  C9. In every reachable store each comment refers to a stored post and each order to a
  stored product, never to nothing; and every request, accepted or rejected, keeps it so.
\<close>

theorem references_stay_valid:
  "(reachable db \<longrightarrow> references_valid db)
   \<and> (references_valid db \<longrightarrow> references_valid (snd (execute now op db)))
   \<and> (references_valid db \<longrightarrow>
        (\<forall>c\<in>set (comments db). \<exists>p\<in>set (posts db). post_id c = Some (Post.pk p))
        \<and> (\<forall>r\<in>set (orders db). \<exists>p\<in>set (products db). product_id r = Some (Product.pk p)))"
  using reachable_valid valid_execute references_valid_rows by blast

lemma demo_store_rows:
  "posts demo_store = [demo_post\<lparr>Post.pk := 1, published_date := 1\<rparr>]
   \<and> comments demo_store = [demo_comment\<lparr>Comment.pk := 1\<rparr>]"
  by (simp add: demo_store_def create_post_def create_comment_def check_reference_def
      Comment_post_def empty_db_def next_pk_def pre_save_def Post_published_date_def
      demo_comment_def)

text \<open>
  The store with one post and one comment on it is reachable and valid; deleting the post
  takes the comment with it, and a comment on the deleted post is then refused.
\<close>

theorem references_stay_valid_witness:
  "reachable demo_store
   \<and> references_valid demo_store
   \<and> map post_id (comments demo_store) = [Some 1]
   \<and> map Post.pk (posts demo_store) = [1]
   \<and> references_valid (snd (execute 3 (DeletePost 1) demo_store))
   \<and> comments (snd (execute 3 (DeletePost 1) demo_store)) = []
   \<and> fst (execute 4 (CreateComment demo_comment) (snd (execute 3 (DeletePost 1) demo_store)))
       = Some ForeignKeyViolation"
proof -
  have r: "reachable demo_store"
    unfolding demo_store_def by (intro reachable.step reachable.initial)
  have v: "references_valid demo_store"
    using references_stay_valid [of demo_store 3 "DeletePost 1"] r by blast
  have d: "references_valid (snd (execute 3 (DeletePost 1) demo_store))"
    using references_stay_valid [of demo_store 3 "DeletePost 1"] v by blast
  have rows: "map post_id (comments demo_store) = [Some 1] \<and> map Post.pk (posts demo_store) = [1]"
    by (simp add: demo_store_rows demo_comment_def)
  have gone: "comments (snd (execute 3 (DeletePost 1) demo_store)) = []
     \<and> posts (snd (execute 3 (DeletePost 1) demo_store)) = []"
    by (simp add: delete_post_def demo_store_rows collect_related_def Comment_post_def
        demo_comment_def)
  have refused: "fst (execute 4 (CreateComment demo_comment)
      (snd (execute 3 (DeletePost 1) demo_store))) = Some ForeignKeyViolation"
    using gone by (simp add: create_comment_def check_reference_def demo_comment_def Comment_post_def)
  show ?thesis using r v d rows gone refused by simp
qed

end
